theory Spec2Isabelle
  imports Main "HOL-Library.AList"
begin

section \<open>JavaScript values\<close>

text \<open>
  The client of \<^verbatim>\<open>src/blog/blog.js\<close> handles whatever JSON the server sends, so the
  values it stores are modelled dynamically. A string is a \<^typ>\<open>string\<close>, a list of
  characters; the program tells apart only characters of ASCII. A number is represented
  by the two observations the program makes of one: whether it is truthy and its decimal
  text. \<open>JUndefined\<close> is the result of reading a missing property.
\<close>

datatype jsval =
    JUndefined
  | JNull
  | JBool bool
  | JNum bool string
  | JStr string
  | JArr "jsval list"
  | JObj "(string \<times> jsval) list"

text \<open>
  The exceptions of the program: its own \<open>UnauthorizedError\<close>, the plain \<open>Error\<close>
  that \<open>fetchJSON\<close> throws with a message, and the built-in errors.
\<close>

datatype js_error = UnauthorizedError | Error string | TypeError | SyntaxError | URIError

fun truthy :: "jsval \<Rightarrow> bool" where
  "truthy JUndefined = False"
| "truthy JNull = False"
| "truthy (JBool b) = b"
| "truthy (JNum t _) = t"
| "truthy (JStr s) = (s \<noteq> [])"
| "truthy (JArr _) = True"
| "truthy (JObj _) = True"

text \<open>
  Property read \<open>v.k\<close>, for the names the program reads (\<open>token\<close>, \<open>posts\<close>, \<open>id\<close>,
  \<open>title\<close>, \<open>body\<close>, \<open>createdAt\<close>), none of which a built-in prototype defines:
  it throws on \<open>null\<close> and \<open>undefined\<close>, finds an own property of a parsed object, and is
  \<open>undefined\<close> on every other value.
\<close>

fun get_prop :: "jsval \<Rightarrow> string \<Rightarrow> js_error + jsval" where
  "get_prop JUndefined k = Inl TypeError"
| "get_prop JNull k = Inl TypeError"
| "get_prop (JObj kvs) k = Inr (case map_of kvs k of None \<Rightarrow> JUndefined | Some v \<Rightarrow> v)"
| "get_prop _ k = Inr JUndefined"

text \<open>
  String conversion, as a template literal applies it. An array joins its elements with
  commas, \<open>null\<close> and \<open>undefined\<close> elements giving the empty string. A parsed object
  has no callable own property, so it converts through \<open>Object.prototype.toString\<close>
  unless an own \<open>toString\<close> property shadows that, in which case the conversion throws.
\<close>

fun to_string :: "jsval \<Rightarrow> js_error + string"
  and join_elems :: "jsval list \<Rightarrow> js_error + string" where
  "to_string JUndefined = Inr ''undefined''"
| "to_string JNull = Inr ''null''"
| "to_string (JBool b) = Inr (if b then ''true'' else ''false'')"
| "to_string (JNum _ t) = Inr t"
| "to_string (JStr s) = Inr s"
| "to_string (JArr xs) = join_elems xs"
| "to_string (JObj kvs) =
     (if ''toString'' \<in> fst ` set kvs then Inl TypeError else Inr ''[object Object]'')"
| "join_elems [] = Inr []"
| "join_elems (x # xs) =
     (case (if x = JNull \<or> x = JUndefined then Inr [] else to_string x) of
        Inl e \<Rightarrow> Inl e
      | Inr t \<Rightarrow>
          (if xs = [] then Inr t
           else (case join_elems xs of Inl e \<Rightarrow> Inl e | Inr r \<Rightarrow> Inr (t @ '','' @ r))))"

section \<open>Escaping\<close>

text \<open>
  \<open>s.replace(/c/g, r)\<close> for a pattern of one character: every occurrence of \<open>c\<close>
  becomes \<open>r\<close>, from left to right. None of the replacement texts used contains \<open>$\<close>.
\<close>

definition replace_all :: "char \<Rightarrow> string \<Rightarrow> string \<Rightarrow> string" where
  "replace_all c r s = concat (map (\<lambda>x. if x = c then r else [x]) s)"

text \<open>
  \<open>escapeHtml(value)\<close>: five replacements in a row, the ampersand first. On a value that
  is not a string, \<open>value.replace\<close> is not a function and the call throws.
\<close>

fun escapeHtml :: "jsval \<Rightarrow> js_error + string" where
  "escapeHtml (JStr s) =
     Inr (replace_all (CHR 0x27) ''&#039;''
           (replace_all (CHR 0x22) ''&quot;''
             (replace_all CHR ''>'' ''&gt;''
               (replace_all CHR ''<'' ''&lt;''
                 (replace_all CHR ''&'' ''&amp;'' s)))))"
| "escapeHtml _ = Inl TypeError"

text \<open>
  The two notions of the specification's escaping property, stated on their own and not
  taken from the code. \<open>entity_form_only\<close> reads a text from the left: an ampersand
  must start one of the five entities, and none of the other four special characters may
  occur. \<open>unescapeHtml\<close> decodes the five entities and copies everything else.
\<close>

fun entity_form_only :: "string \<Rightarrow> bool" where
  "entity_form_only [] = True"
| "entity_form_only (c # cs) =
     (if c = CHR ''&'' then
        (if take 4 cs = ''amp;'' then entity_form_only (drop 4 cs)
         else if take 3 cs = ''lt;'' then entity_form_only (drop 3 cs)
         else if take 3 cs = ''gt;'' then entity_form_only (drop 3 cs)
         else if take 5 cs = ''quot;'' then entity_form_only (drop 5 cs)
         else if take 5 cs = ''#039;'' then entity_form_only (drop 5 cs)
         else False)
      else if c = CHR ''<'' \<or> c = CHR ''>'' \<or> c = CHR 0x22 \<or> c = CHR 0x27 then False
      else entity_form_only cs)"

fun unescapeHtml :: "string \<Rightarrow> string" where
  "unescapeHtml [] = []"
| "unescapeHtml (c # cs) =
     (if c = CHR ''&'' \<and> take 4 cs = ''amp;'' then CHR ''&'' # unescapeHtml (drop 4 cs)
      else if c = CHR ''&'' \<and> take 3 cs = ''lt;'' then CHR ''<'' # unescapeHtml (drop 3 cs)
      else if c = CHR ''&'' \<and> take 3 cs = ''gt;'' then CHR ''>'' # unescapeHtml (drop 3 cs)
      else if c = CHR ''&'' \<and> take 5 cs = ''quot;'' then CHR 0x22 # unescapeHtml (drop 5 cs)
      else if c = CHR ''&'' \<and> take 5 cs = ''#039;'' then CHR 0x27 # unescapeHtml (drop 5 cs)
      else c # unescapeHtml cs)"

text \<open>The text one character becomes under the five replacements.\<close>

definition escape_char :: "char \<Rightarrow> string" where
  "escape_char c =
     (if c = CHR ''&'' then ''&amp;''
      else if c = CHR ''<'' then ''&lt;''
      else if c = CHR ''>'' then ''&gt;''
      else if c = CHR 0x22 then ''&quot;''
      else if c = CHR 0x27 then ''&#039;''
      else [c])"

section \<open>Environment\<close>

text \<open>
  Built-in functions whose definition is not part of the program are parameters of the
  model: \<open>String.prototype.trim\<close>, \<open>encodeURIComponent\<close> (\<open>None\<close> when it throws
  \<open>URIError\<close>) and \<open>new Date(v).toLocaleString()\<close> on a primitive \<open>v\<close>.
\<close>

record env =
  trim :: "string \<Rightarrow> string"
  encodeURIComponent :: "string \<Rightarrow> string option"
  dateToLocaleString :: "jsval \<Rightarrow> string"

section \<open>Client state\<close>

text \<open>
  The options \<open>fetchJSON\<close> is called with (\<open>method_name\<close> is \<open>method\<close>), a request
  as the path with the options, and a response as far as the program reads one.
\<close>

record options =
  method_name :: string
  headers :: "(string \<times> string) list"
  body :: "jsval option"

type_synonym request = "string \<times> options"

record response =
  status :: nat
  statusText :: string
  body_text :: string
  body_json :: "jsval option"

datatype fetch_result = NetworkFailure | Response response

text \<open>
  \<open>token\<close>, \<open>posts\<close> and \<open>authed\<close> are the fields of the script's \<open>state\<close>;
  \<open>storage\<close> is the entry of \<open>localStorage\<close> under \<open>STORAGE_KEY\<close>. The other
  fields are the parts of the document the script writes: the text of the two message
  elements, the markup last assigned to the posts container, the \<open>hidden\<close> marking of
  five elements, the \<open>disabled\<close> flag of two buttons and the values of the form
  fields. \<open>network\<close> records every call of \<open>fetch\<close>, in order.
\<close>

record client_state =
  token :: jsval
  posts :: "jsval list"
  authed :: bool
  storage :: "string option"
  loginError :: string
  editorMessage :: string
  postsHtml :: string
  authPanelHidden :: bool
  signOutHidden :: bool
  postFormHidden :: bool
  adminNoteHidden :: bool
  visitorNoteHidden :: bool
  publishDisabled :: bool
  clearDisabled :: bool
  loginUsername :: string
  loginPassword :: string
  postTitle :: string
  postBody :: string
  network :: "request list"

text \<open>
  A function that may throw returns the exception, if any, with the state reached.
  \<open>then_run\<close> is sequencing: nothing runs after a throw.
\<close>

definition and_then :: "js_error + 'a \<Rightarrow> ('a \<Rightarrow> js_error + 'b) \<Rightarrow> js_error + 'b" where
  "and_then r f = (case r of Inl e \<Rightarrow> Inl e | Inr v \<Rightarrow> f v)"

definition then_run ::
  "js_error option \<times> client_state \<Rightarrow> (client_state \<Rightarrow> js_error option \<times> client_state)
   \<Rightarrow> js_error option \<times> client_state" where
  "then_run r f = (case r of (None, s) \<Rightarrow> f s | (Some e, s) \<Rightarrow> (Some e, s))"

section \<open>Token store and API client\<close>

definition API_BASE :: string where
  "API_BASE = ''/api''"

definition loadToken :: "client_state \<Rightarrow> jsval" where
  "loadToken s = (case storage s of None \<Rightarrow> JNull | Some t \<Rightarrow> JStr t)"

text \<open>\<open>localStorage.setItem\<close> stores the string conversion of its argument.\<close>

definition saveToken :: "jsval \<Rightarrow> client_state \<Rightarrow> js_error option \<times> client_state" where
  "saveToken t s =
     (if truthy t then
        (case to_string t of
           Inl e \<Rightarrow> (Some e, s)
         | Inr txt \<Rightarrow> (None, s\<lparr>storage := Some txt, token := t\<rparr>))
      else (None, s\<lparr>storage := None, token := t\<rparr>))"

definition authHeaders ::
  "client_state \<Rightarrow> (string \<times> string) list \<Rightarrow> js_error + (string \<times> string) list" where
  "authHeaders s hs =
     (if \<not> truthy (token s) then Inr hs
      else and_then (to_string (token s))
             (\<lambda>t. Inr (AList.update ''Authorization'' (''Bearer '' @ t) hs)))"

text \<open>\<open>response.ok\<close>: the status is in the range 200 to 299.\<close>

definition response_ok :: "response \<Rightarrow> bool" where
  "response_ok r = (200 \<le> status r \<and> status r \<le> 299)"

text \<open>
  \<open>fetchJSON\<close> in two parts: the request \<open>fetch\<close> is called with, and what the call
  returns or throws for the outcome of that \<open>fetch\<close>. The body of a request is kept as
  the value given to \<open>JSON.stringify\<close>, which is an object wherever the program sends
  one, so a present body is truthy. \<open>body_text\<close> is what \<open>response.text()\<close> yields and
  \<open>body_json\<close> what \<open>response.json()\<close> yields, \<open>None\<close> when the body does not parse.
\<close>

definition fetchJSON_request :: "string \<Rightarrow> options \<Rightarrow> request" where
  "fetchJSON_request path opts =
     (API_BASE @ path,
      opts\<lparr>headers :=
        (if body opts \<noteq> None \<and>
            (case map_of (headers opts) ''Content-Type'' of None \<Rightarrow> True | Some v \<Rightarrow> v = [])
         then AList.update ''Content-Type'' ''application/json'' (headers opts)
         else headers opts)\<rparr>)"

definition fetchJSON_result :: "fetch_result \<Rightarrow> js_error + jsval" where
  "fetchJSON_result fr =
     (case fr of
        NetworkFailure \<Rightarrow> Inl TypeError
      | Response r \<Rightarrow>
          if status r = 401 then Inl UnauthorizedError
          else if \<not> response_ok r then
            Inl (Error (if body_text r \<noteq> [] then body_text r
                        else if statusText r \<noteq> [] then statusText r
                        else ''Request failed.''))
          else if status r = 204 then Inr JNull
          else (case body_json r of None \<Rightarrow> Inl SyntaxError | Some v \<Rightarrow> Inr v))"

text \<open>One awaited call of \<open>fetchJSON\<close>: the request is recorded, the result handed back.\<close>

definition fetchJSON ::
  "string \<Rightarrow> options \<Rightarrow> fetch_result \<Rightarrow> client_state \<Rightarrow> (js_error + jsval) \<times> client_state" where
  "fetchJSON path opts fr s =
     (fetchJSON_result fr, s\<lparr>network := network s @ [fetchJSON_request path opts]\<rparr>)"

section \<open>Post list renderer\<close>

text \<open>
  \<open>new Date(v).toLocaleString()\<close>: the constructor first converts an object or array
  to a primitive, which for parsed JSON is its string conversion and may throw.
\<close>

definition date_text :: "env \<Rightarrow> jsval \<Rightarrow> js_error + string" where
  "date_text E v =
     (case v of
        JArr _ \<Rightarrow> and_then (to_string v) (\<lambda>t. Inr (dateToLocaleString E (JStr t)))
      | JObj _ \<Rightarrow> and_then (to_string v) (\<lambda>t. Inr (dateToLocaleString E (JStr t)))
      | _ \<Rightarrow> Inr (dateToLocaleString E v))"

text \<open>A line break of the template literal followed by its indentation.\<close>

definition indent :: "nat \<Rightarrow> string" where
  "indent n = CHR 0x0A # replicate n CHR '' ''"

definition empty_placeholder :: string where
  \<open>empty_placeholder =
     ''<div class="post empty">No posts yet. Use the editor below to add one!</div>''\<close>

text \<open>
  The callback of \<open>state.posts.map\<close> in \<open>renderPosts\<close>. Everything it can throw is
  a \<open>TypeError\<close> and it writes nothing, so a property the source reads or converts
  twice is read and converted once here.
\<close>

definition render_post :: "env \<Rightarrow> bool \<Rightarrow> jsval \<Rightarrow> js_error + string" where
  \<open>render_post E isAuthed post =
     and_then (get_prop post ''createdAt'') (\<lambda>createdAt.
     and_then (date_text E createdAt) (\<lambda>time.
     and_then (get_prop post ''title'') (\<lambda>title.
     and_then (escapeHtml title) (\<lambda>escapedTitle.
     and_then (get_prop post ''body'') (\<lambda>body.
     and_then (escapeHtml body) (\<lambda>escaped.
     and_then (get_prop post ''id'') (\<lambda>id.
     and_then (to_string id) (\<lambda>idText.
     and_then (to_string createdAt) (\<lambda>createdText.
       let escapedBody = replace_all (CHR 0x0A) ''<br/>'' escaped;
           deleteButton =
             (if isAuthed
              then ''<button class="delete-post danger" data-id="'' @ idText @ ''">Delete</button>''
              else [])
       in Inr (indent 8 @ ''<article class="post" data-id="'' @ idText @ ''">''
             @ indent 10 @ ''<div class="post-header">''
             @ indent 12 @ ''<h3>'' @ escapedTitle @ ''</h3>''
             @ indent 12 @ deleteButton
             @ indent 10 @ ''</div>''
             @ indent 10 @ ''<time datetime="'' @ createdText @ ''">'' @ time @ ''</time>''
             @ indent 10 @ ''<p>'' @ escapedBody @ ''</p>''
             @ indent 8 @ ''</article>''
             @ indent 6))))))))))\<close>

fun map_results :: "('a \<Rightarrow> js_error + 'b) \<Rightarrow> 'a list \<Rightarrow> js_error + 'b list" where
  "map_results f [] = Inr []"
| "map_results f (x # xs) =
     and_then (f x) (\<lambda>y. and_then (map_results f xs) (\<lambda>ys. Inr (y # ys)))"

text \<open>The markup \<open>renderPosts\<close> assigns to the posts container, or what it throws.\<close>

definition render_html :: "env \<Rightarrow> bool \<Rightarrow> jsval list \<Rightarrow> js_error + string" where
  "render_html E isAuthed ps =
     (if ps = [] then Inr empty_placeholder
      else and_then (map_results (render_post E isAuthed) ps) (\<lambda>parts. Inr (concat parts)))"

definition renderPosts :: "env \<Rightarrow> client_state \<Rightarrow> js_error option \<times> client_state" where
  "renderPosts E s =
     (case render_html E (authed s) (posts s) of
        Inl e \<Rightarrow> (Some e, s)
      | Inr html \<Rightarrow> (None, s\<lparr>postsHtml := html\<rparr>))"

section \<open>Session controller\<close>

text \<open>
  \<open>loginForm.reset()\<close> and \<open>postForm.reset()\<close> put the fields back to their initial
  values, taken to be empty (the document is not part of the sources).
\<close>

definition setAuthState :: "env \<Rightarrow> bool \<Rightarrow> client_state \<Rightarrow> js_error option \<times> client_state" where
  "setAuthState E isAuthed s =
     renderPosts E
       (if isAuthed then
          s\<lparr>authed := True, authPanelHidden := True, signOutHidden := False,
            postFormHidden := False, adminNoteHidden := False, visitorNoteHidden := True,
            loginError := [], publishDisabled := False, clearDisabled := False\<rparr>
        else
          s\<lparr>authed := False, signOutHidden := True, postFormHidden := True,
            adminNoteHidden := True, visitorNoteHidden := False, authPanelHidden := False,
            loginUsername := [], loginPassword := [], editorMessage := [],
            publishDisabled := False, clearDisabled := False\<rparr>)"

section \<open>Editor workflows\<close>

text \<open>
  Each workflow is modelled from its invocation to its completion, given the outcome of
  each \<open>fetch\<close> it awaits; other handlers running while it is suspended are not
  modelled. The first component of the result is the exception the handler's promise is
  rejected with, if any.
\<close>

definition loadPosts :: "env \<Rightarrow> fetch_result \<Rightarrow> client_state \<Rightarrow> js_error option \<times> client_state" where
  "loadPosts E fr s =
     (let tried =
        (case authHeaders s [] of
           Inl e \<Rightarrow> (Some e, s)
         | Inr hs \<Rightarrow>
             (case fetchJSON ''/posts'' \<lparr>method_name = ''GET'', headers = hs, body = None\<rparr> fr s of
                (Inl e, s1) \<Rightarrow> (Some e, s1)
              | (Inr result, s1) \<Rightarrow>
                  (case get_prop result ''posts'' of
                     Inl e \<Rightarrow> (Some e, s1)
                   | Inr ps \<Rightarrow>
                       renderPosts E (s1\<lparr>posts := (case ps of JArr xs \<Rightarrow> xs | _ \<Rightarrow> [])\<rparr>))))
      in case tried of
           (None, s') \<Rightarrow> (None, s')
         | (Some e, s') \<Rightarrow>
             if e = UnauthorizedError then
               then_run (saveToken JNull s') (\<lambda>s2.
               then_run (setAuthState E False s2) (\<lambda>s3.
                 (None, s3\<lparr>loginError := ''Session expired. Please sign in again.''\<rparr>)))
             else (None, s'\<lparr>editorMessage := ''Unable to load posts at the moment.''\<rparr>))"

definition handleLogin ::
  "env \<Rightarrow> fetch_result \<Rightarrow> fetch_result \<Rightarrow> client_state \<Rightarrow> js_error option \<times> client_state" where
  "handleLogin E fr_login fr_posts s =
     (let s0 = s\<lparr>loginError := []\<rparr>;
          username = trim E (loginUsername s0);
          password = loginPassword s0
      in if username = [] \<or> password = [] then
           (None, s0\<lparr>loginError := ''Enter both username and password.''\<rparr>)
         else
           (let tried =
              (case fetchJSON ''/login''
                      \<lparr>method_name = ''POST'',
                       headers = [(''Content-Type'', ''application/json'')],
                       body = Some (JObj [(''username'', JStr username),
                                          (''password'', JStr password)])\<rparr> fr_login s0 of
                 (Inl e, s1) \<Rightarrow> (Some e, s1)
               | (Inr result, s1) \<Rightarrow>
                   (case get_prop result ''token'' of
                      Inl e \<Rightarrow> (Some e, s1)
                    | Inr t \<Rightarrow>
                        then_run (saveToken t s1) (\<lambda>s2.
                        then_run (setAuthState E True s2) (\<lambda>s3.
                        then_run (loadPosts E fr_posts s3) (\<lambda>s4.
                          (None, s4\<lparr>editorMessage :=
                                     ''Welcome back! You'' @ [CHR 0x27] @ ''re signed in.''\<rparr>))))))
            in case tried of
                 (None, s') \<Rightarrow> (None, s')
               | (Some e, s') \<Rightarrow>
                   if e = UnauthorizedError then
                     (None, s'\<lparr>loginError := ''Credentials were incorrect.''\<rparr>)
                   else (None, s'\<lparr>loginError := ''Unable to sign in. Please try again.''\<rparr>)))"

definition handleSignOut ::
  "env \<Rightarrow> fetch_result \<Rightarrow> fetch_result \<Rightarrow> client_state \<Rightarrow> js_error option \<times> client_state" where
  "handleSignOut E fr_logout fr_posts s =
     (let s1 =
        (if truthy (token s) then
           (case authHeaders s [(''Content-Type'', ''application/json'')] of
              Inl e \<Rightarrow> s
            | Inr hs \<Rightarrow>
                snd (fetchJSON ''/logout'' \<lparr>method_name = ''POST'', headers = hs, body = None\<rparr>
                       fr_logout s))
         else s)
      in then_run (saveToken JNull s1) (\<lambda>s2.
         then_run (setAuthState E False s2) (\<lambda>s3.
           loadPosts E fr_posts s3)))"

definition handleCreatePost ::
  "env \<Rightarrow> fetch_result \<Rightarrow> client_state \<Rightarrow> js_error option \<times> client_state" where
  "handleCreatePost E fr s =
     (if \<not> authed s then (None, s\<lparr>editorMessage := ''Sign in to publish posts.''\<rparr>)
      else
        (let s0 = s\<lparr>publishDisabled := True\<rparr>;
             title = trim E (postTitle s0);
             body = trim E (postBody s0)
         in if title = [] \<or> body = [] then
              (None, s0\<lparr>editorMessage := ''Add both a title and content before publishing.'',
                         publishDisabled := False\<rparr>)
            else
              (let tried =
                 (case authHeaders s0 [(''Content-Type'', ''application/json'')] of
                    Inl e \<Rightarrow> (Some e, s0)
                  | Inr hs \<Rightarrow>
                      (case fetchJSON ''/posts''
                              \<lparr>method_name = ''POST'', headers = hs,
                               body = Some (JObj [(''title'', JStr title),
                                                  (''body'', JStr body)])\<rparr> fr s0 of
                         (Inl e, s1) \<Rightarrow> (Some e, s1)
                       | (Inr newPost, s1) \<Rightarrow>
                           renderPosts E
                             (s1\<lparr>posts := newPost # posts s1, postTitle := [], postBody := [],
                                 editorMessage := ''Post published.''\<rparr>)));
                   caught =
                 (case tried of
                    (None, s') \<Rightarrow> (None, s')
                  | (Some e, s') \<Rightarrow>
                      if e = UnauthorizedError then
                        then_run (saveToken JNull s') (\<lambda>s2.
                        then_run (setAuthState E False s2) (\<lambda>s3.
                          (None, s3\<lparr>loginError := ''Session expired. Please sign in again.''\<rparr>)))
                      else (None, s'\<lparr>editorMessage := ''Unable to publish. Please try again.''\<rparr>))
               in (fst caught, (snd caught)\<lparr>publishDisabled := False\<rparr>))))"

text \<open>\<open>state.posts.filter((post) => post.id !== id)\<close>, where \<open>id\<close> is a string.\<close>

fun filter_posts :: "string \<Rightarrow> jsval list \<Rightarrow> js_error + jsval list" where
  "filter_posts i [] = Inr []"
| "filter_posts i (post # ps) =
     and_then (get_prop post ''id'') (\<lambda>v.
     and_then (filter_posts i ps) (\<lambda>rest.
       Inr (if v \<noteq> JStr i then post # rest else rest)))"

text \<open>
  \<open>i\<close> is \<open>button.dataset.id\<close> of the button clicked and \<open>confirmed\<close> the answer
  of \<open>window.confirm\<close>. The \<open>disabled\<close> flag of the clicked button is not modelled.
\<close>

definition handleDeletePost ::
  "env \<Rightarrow> string \<Rightarrow> bool \<Rightarrow> fetch_result \<Rightarrow> client_state \<Rightarrow> js_error option \<times> client_state" where
  "handleDeletePost E i confirmed fr s =
     (if \<not> authed s then (None, s\<lparr>editorMessage := ''Sign in to manage posts.''\<rparr>)
      else if i = [] then (None, s)
      else if \<not> confirmed then (None, s)
      else
        (let tried =
           (case encodeURIComponent E i of
              None \<Rightarrow> (Some URIError, s)
            | Some enc \<Rightarrow>
                (case authHeaders s [] of
                   Inl e \<Rightarrow> (Some e, s)
                 | Inr hs \<Rightarrow>
                     (case fetchJSON (''/posts/'' @ enc)
                             \<lparr>method_name = ''DELETE'', headers = hs, body = None\<rparr> fr s of
                        (Inl e, s1) \<Rightarrow> (Some e, s1)
                      | (Inr _, s1) \<Rightarrow>
                          (case filter_posts i (posts s1) of
                             Inl e \<Rightarrow> (Some e, s1)
                           | Inr ps \<Rightarrow>
                               renderPosts E
                                 (s1\<lparr>posts := ps, editorMessage := ''Post deleted.''\<rparr>)))))
         in case tried of
              (None, s') \<Rightarrow> (None, s')
            | (Some e, s') \<Rightarrow>
                if e = UnauthorizedError then
                  then_run (saveToken JNull s') (\<lambda>s2.
                  then_run (setAuthState E False s2) (\<lambda>s3.
                    (None, s3\<lparr>loginError := ''Session expired. Please sign in again.''\<rparr>)))
                else (None, s'\<lparr>editorMessage := ''Unable to delete post.''\<rparr>)))"

text \<open>
  The synchronous part of delete-all: one call of \<open>fetchJSON\<close> per post, each sending
  its request at once. A throw while a path or the headers are built ends the loop with
  the earlier requests already sent.
\<close>

fun issue_deletes :: "env \<Rightarrow> jsval list \<Rightarrow> client_state \<Rightarrow> js_error option \<times> client_state" where
  "issue_deletes E [] s = (None, s)"
| "issue_deletes E (post # ps) s =
     (case and_then (get_prop post ''id'') (\<lambda>v.
           and_then (to_string v) (\<lambda>t.
           and_then (case encodeURIComponent E t of None \<Rightarrow> Inl URIError | Some enc \<Rightarrow> Inr enc)
             (\<lambda>enc.
           and_then (authHeaders s []) (\<lambda>hs.
             Inr (fetchJSON_request (''/posts/'' @ enc)
                    \<lparr>method_name = ''DELETE'', headers = hs, body = None\<rparr>))))) of
        Inl e \<Rightarrow> (Some e, s)
      | Inr rq \<Rightarrow> issue_deletes E ps (s\<lparr>network := network s @ [rq]\<rparr>))"

text \<open>
  \<open>Promise.all\<close> over \<open>n\<close> calls whose results are listed in the order in which they
  settle: it is rejected with the first rejection among them, fulfilled once all \<open>n\<close>
  are fulfilled, and stays pending while neither has happened.
\<close>

datatype settled = Pending | Fulfilled | Rejected js_error

fun first_rejection :: "(js_error + 'a) list \<Rightarrow> js_error option" where
  "first_rejection [] = None"
| "first_rejection (Inl e # rs) = Some e"
| "first_rejection (Inr _ # rs) = first_rejection rs"

definition promise_all :: "nat \<Rightarrow> (js_error + 'a) list \<Rightarrow> settled" where
  "promise_all n rs =
     (case first_rejection (take n rs) of
        Some e \<Rightarrow> Rejected e
      | None \<Rightarrow> if n \<le> length rs then Fulfilled else Pending)"

text \<open>
  \<open>outcomes\<close> lists the outcomes of the delete requests in the order in which they
  settle. While the join is pending the handler stays suspended: the state is the one it
  was suspended in.
\<close>

definition handleClear ::
  "env \<Rightarrow> bool \<Rightarrow> fetch_result list \<Rightarrow> client_state \<Rightarrow> js_error option \<times> client_state" where
  "handleClear E confirmed outcomes s =
     (if posts s = [] then (None, s\<lparr>editorMessage := ''Nothing to clear.''\<rparr>)
      else if \<not> authed s then (None, s\<lparr>editorMessage := ''Sign in to remove posts.''\<rparr>)
      else if \<not> confirmed then (None, s)
      else
        (let s0 = s\<lparr>clearDisabled := True\<rparr>;
             issued = issue_deletes E (posts s0) s0;
             s1 = snd issued;
             joined =
               (case fst issued of
                  Some e \<Rightarrow> Rejected e
                | None \<Rightarrow> promise_all (length (posts s0)) (map fetchJSON_result outcomes))
         in if joined = Pending then (None, s1)
            else
              (let tried =
                 (case joined of
                    Rejected e \<Rightarrow> (Some e, s1)
                  | _ \<Rightarrow> renderPosts E (s1\<lparr>posts := [], editorMessage := ''All posts removed.''\<rparr>));
                   caught =
                 (case tried of
                    (None, s') \<Rightarrow> (None, s')
                  | (Some e, s') \<Rightarrow>
                      if e = UnauthorizedError then
                        then_run (saveToken JNull s') (\<lambda>s2.
                        then_run (setAuthState E False s2) (\<lambda>s3.
                          (None, s3\<lparr>loginError := ''Session expired. Please sign in again.''\<rparr>)))
                      else (None, s'\<lparr>editorMessage := ''Unable to clear posts.''\<rparr>))
               in (fst caught, (snd caught)\<lparr>clearDisabled := False\<rparr>))))"

text \<open>Of the export workflow only its message is part of the state; the download is not.\<close>

definition handleExport :: "client_state \<Rightarrow> js_error option \<times> client_state" where
  "handleExport s =
     (if posts s = [] then (None, s\<lparr>editorMessage := ''There are no posts to export.''\<rparr>)
      else (None, s\<lparr>editorMessage := ''Export downloaded.''\<rparr>))"

section \<open>Start-up and runs\<close>

text \<open>
  The last three lines of the script. \<open>page\<close> gives the document as loaded and
  \<open>stored\<close> the entry of \<open>localStorage\<close> found at that moment.
\<close>

definition startup ::
  "env \<Rightarrow> string option \<Rightarrow> fetch_result \<Rightarrow> client_state \<Rightarrow> js_error option \<times> client_state" where
  "startup E stored fr page =
     (let s0 = page\<lparr>token := JNull, posts := [], authed := False, storage := stored,
                    network := []\<rparr>
      in then_run (saveToken (loadToken s0) s0) (\<lambda>s1.
         then_run (setAuthState E (truthy (token s1)) s1) (\<lambda>s2.
           loadPosts E fr s2)))"

text \<open>What can happen to the page: the user fills in a form, or a listener runs.\<close>

datatype event =
    TypeLogin string string
  | TypePost string string
  | SubmitLogin fetch_result fetch_result
  | ClickSignOut fetch_result fetch_result
  | SubmitPost fetch_result
  | ClickDelete string bool fetch_result
  | ClickClear bool "fetch_result list"
  | ClickExport

fun handle :: "env \<Rightarrow> event \<Rightarrow> client_state \<Rightarrow> client_state" where
  "handle E (TypeLogin u p) s = s\<lparr>loginUsername := u, loginPassword := p\<rparr>"
| "handle E (TypePost t b) s = s\<lparr>postTitle := t, postBody := b\<rparr>"
| "handle E (SubmitLogin fr1 fr2) s = snd (handleLogin E fr1 fr2 s)"
| "handle E (ClickSignOut fr1 fr2) s = snd (handleSignOut E fr1 fr2 s)"
| "handle E (SubmitPost fr) s = snd (handleCreatePost E fr s)"
| "handle E (ClickDelete i c fr) s = snd (handleDeletePost E i c fr s)"
| "handle E (ClickClear c frs) s = snd (handleClear E c frs s)"
| "handle E ClickExport s = snd (handleExport s)"

fun run :: "env \<Rightarrow> event list \<Rightarrow> client_state \<Rightarrow> client_state" where
  "run E [] s = s"
| "run E (ev # evs) s = run E evs (handle E ev s)"

section \<open>Notions of the specification\<close>

text \<open>
  A Post as the data model has it: a value whose \<open>id\<close>, \<open>title\<close>, \<open>body\<close> and
  \<open>createdAt\<close> are strings.
\<close>

definition has_string :: "jsval \<Rightarrow> string \<Rightarrow> bool" where
  "has_string v k = (case get_prop v k of Inr (JStr _) \<Rightarrow> True | _ \<Rightarrow> False)"

definition is_post :: "jsval \<Rightarrow> bool" where
  "is_post p = (has_string p ''id'' \<and> has_string p ''title'' \<and> has_string p ''body''
                \<and> has_string p ''createdAt'')"

text \<open>
  The text a field of a value contributes to markup, its string conversion, and the text
  of the time of a post; both empty where the program would throw.
\<close>

definition text_field :: "jsval \<Rightarrow> string \<Rightarrow> string" where
  "text_field v k = (case and_then (get_prop v k) to_string of Inr t \<Rightarrow> t | Inl e \<Rightarrow> [])"

definition time_text :: "env \<Rightarrow> jsval \<Rightarrow> string" where
  "time_text E v =
     (case and_then (get_prop v ''createdAt'') (date_text E) of Inr t \<Rightarrow> t | Inl e \<Rightarrow> [])"

text \<open>
  The session is cleared when the token store is empty, \<open>state.token\<close> is \<open>null\<close>
  and \<open>state.authed\<close> is false. Two states have the same session when they agree on
  these three. The invariant of the session: \<open>authed\<close> only with a token in
  \<open>state.token\<close> that is truthy, and with a non-empty text in the token store that is
  the string conversion of that token.
\<close>

definition session_cleared :: "client_state \<Rightarrow> bool" where
  "session_cleared s = (storage s = None \<and> token s = JNull \<and> \<not> authed s)"

definition same_session :: "client_state \<Rightarrow> client_state \<Rightarrow> bool" where
  "same_session s s' = (token s' = token s \<and> authed s' = authed s \<and> storage s' = storage s)"

definition session_invariant :: "client_state \<Rightarrow> bool" where
  "session_invariant s =
     (authed s \<longrightarrow>
        truthy (token s) \<and> storage s \<noteq> Some [] \<and>
        map_option Inr (storage s) = Some (to_string (token s)))"

text \<open>
  A login is token bearing unless its request succeeds with a result whose \<open>token\<close>
  field can be read and is falsy (absent, \<open>null\<close>, the empty string, zero, \<open>false\<close>)
  or has the empty text as its string conversion (as the empty array has). Every other
  event counts as token bearing.
\<close>

fun token_bearing :: "event \<Rightarrow> bool" where
  "token_bearing (SubmitLogin fr1 fr2) =
     (case fetchJSON_result fr1 of
        Inl e \<Rightarrow> True
      | Inr v \<Rightarrow>
          (case get_prop v ''token'' of
             Inl e \<Rightarrow> True
           | Inr t \<Rightarrow> truthy t \<and> to_string t \<noteq> Inr []))"
| "token_bearing _ = True"

section \<open>Sample inputs\<close>

text \<open>
  Concrete inputs for the examples below: an environment whose \<open>trim\<close> strips blanks,
  tabs and line breaks, whose \<open>encodeURIComponent\<close> is the identity (as it is on letters
  and digits) and whose dates print as the text they were built from; a document with
  nothing shown and nothing entered; and some responses.
\<close>

definition blank :: "char \<Rightarrow> bool" where
  "blank c = (c = CHR '' '' \<or> c = CHR 0x09 \<or> c = CHR 0x0A \<or> c = CHR 0x0D)"

definition sample_env :: env where
  "sample_env =
     \<lparr>trim = (\<lambda>t. rev (dropWhile blank (rev (dropWhile blank t)))),
      encodeURIComponent = Some,
      dateToLocaleString = (\<lambda>v. case v of JStr t \<Rightarrow> t | _ \<Rightarrow> ''Invalid Date'')\<rparr>"

definition blank_page :: client_state where
  "blank_page =
     \<lparr>token = JNull, posts = [], authed = False, storage = None, loginError = [],
      editorMessage = [], postsHtml = [], authPanelHidden = False, signOutHidden = False,
      postFormHidden = False, adminNoteHidden = False, visitorNoteHidden = False,
      publishDisabled = False, clearDisabled = False, loginUsername = [], loginPassword = [],
      postTitle = [], postBody = [], network = []\<rparr>"

definition json_response :: "jsval \<Rightarrow> fetch_result" where
  "json_response v =
     Response \<lparr>status = 200, statusText = ''OK'', body_text = [], body_json = Some v\<rparr>"

definition status_response :: "nat \<Rightarrow> fetch_result" where
  "status_response n =
     Response \<lparr>status = n, statusText = [], body_text = [], body_json = None\<rparr>"

definition sample_post :: "string \<Rightarrow> jsval" where
  "sample_post i =
     JObj [(''id'', JStr i), (''title'', JStr ''T''), (''body'', JStr ''B''),
           (''createdAt'', JStr ''2024-01-01T00:00:00Z'')]"

definition signed_in :: client_state where
  "signed_in =
     blank_page\<lparr>token := JStr ''tok'', authed := True, storage := Some ''tok'',
                posts := [sample_post ''p1''], authPanelHidden := True,
                visitorNoteHidden := True, postTitle := ''Hello'', postBody := ''World''\<rparr>"

text \<open>The same page with the login form filled in.\<close>

definition login_filled :: client_state where
  "login_filled = signed_in\<lparr>loginUsername := ''u'', loginPassword := ''p''\<rparr>"

definition posts_response :: "jsval list \<Rightarrow> fetch_result" where
  "posts_response ps = json_response (JObj [(''posts'', JArr ps)])"

text \<open>
  The page after start-up without and with a stored token, and after a login, entered as
  \<open>u\<close> and \<open>p\<close>, that is answered without a token, with the empty array as token,
  and with status 401.
\<close>

definition visitor_start :: client_state where
  "visitor_start = snd (startup sample_env None (posts_response [sample_post ''p1'']) blank_page)"

definition editor_start :: client_state where
  "editor_start =
     snd (startup sample_env (Some ''tok'') (posts_response [sample_post ''p1'']) blank_page)"

definition tokenless_login :: client_state where
  "tokenless_login =
     run sample_env
       [TypeLogin ''u'' ''p'', SubmitLogin (json_response (JObj [])) (posts_response [])]
       visitor_start"

definition rejected_login :: client_state where
  "rejected_login =
     run sample_env
       [TypeLogin ''u'' ''p'', SubmitLogin (status_response 401) (posts_response [])]
       editor_start"

definition array_token_login :: client_state where
  "array_token_login =
     run sample_env
       [TypeLogin ''u'' ''p'',
        SubmitLogin (json_response (JObj [(''token'', JArr [])])) (posts_response [])]
       visitor_start"

text \<open>The page after start-up with a stored token and two posts.\<close>

definition editor_two :: client_state where
  "editor_two =
     snd (startup sample_env (Some ''tok'')
            (posts_response [sample_post ''p1'', sample_post ''p2'']) blank_page)"

text \<open>
  The page of a signed-in editor after a publish, of title \<open>Hello\<close> and body
  \<open>World\<close>, that the server answered with status 204, the form filled in again.
\<close>

definition null_cached :: client_state where
  "null_cached =
     run sample_env
       [TypePost ''Hello'' ''World'', SubmitPost (status_response 204),
        TypePost ''Hello'' ''World'']
       editor_start"

text \<open>
  A post whose title is the number 5, and the page after start-up with a stored token
  when the server lists that post between two others.
\<close>

definition numbered_post :: "string \<Rightarrow> jsval" where
  "numbered_post i =
     JObj [(''id'', JStr i), (''title'', JNum True ''5''), (''body'', JStr ''B''),
           (''createdAt'', JStr ''2024-01-01T00:00:00Z'')]"

definition three_cached :: client_state where
  "three_cached =
     snd (startup sample_env (Some ''tok'')
            (posts_response [sample_post ''p1'', numbered_post ''p2'', sample_post ''p3''])
            blank_page)"

section \<open>Properties of escaping\<close>

lemma replace_all_Nil: "replace_all c r [] = []"
  by (simp add: replace_all_def)

lemma replace_all_append: "replace_all c r (xs @ ys) = replace_all c r xs @ replace_all c r ys"
  by (simp add: replace_all_def)

lemma replace_all_Cons:
  "replace_all c r (x # xs) = (if x = c then r else [x]) @ replace_all c r xs"
  by (simp add: replace_all_def)

lemma five_replacements:
  "replace_all (CHR 0x27) ''&#039;''
     (replace_all (CHR 0x22) ''&quot;''
       (replace_all CHR ''>'' ''&gt;''
         (replace_all CHR ''<'' ''&lt;''
           (replace_all CHR ''&'' ''&amp;'' s)))) = concat (map escape_char s)"
  by (induction s)
     (simp_all add: replace_all_Cons replace_all_append replace_all_Nil escape_char_def)

lemma unescape_escape_char: "unescapeHtml (escape_char c @ r) = c # unescapeHtml r"
  by (simp add: escape_char_def)

lemma entity_form_escape_char: "entity_form_only (escape_char c @ r) = entity_form_only r"
  by (simp add: escape_char_def)

lemma unescape_escaped: "unescapeHtml (concat (map escape_char s)) = s"
  by (induction s) (simp_all add: unescape_escape_char)

lemma entity_form_escaped: "entity_form_only (concat (map escape_char s))"
  by (induction s) (simp_all add: entity_form_escape_char)

text \<open>
  C2. For every string, \<open>escapeHtml\<close> returns a text in which \<open>&\<close>, \<open><\<close>, \<open>>\<close>, the
  double quote and the apostrophe occur only inside the five entities, and decoding the
  entities of that text gives the string back.
\<close>

theorem escapeHtml_entities_roundtrip:
  "\<exists>out. escapeHtml (JStr s) = Inr out \<and> entity_form_only out \<and> unescapeHtml out = s"
  by (simp add: five_replacements unescape_escaped entity_form_escaped)

lemma escapeHtml_JStr: "escapeHtml (JStr t) = Inr (concat (map escape_char t))"
  by (simp add: five_replacements)

section \<open>What can be thrown\<close>

lemma and_then_Inl:
  "and_then r f = Inl e \<longleftrightarrow> r = Inl e \<or> (\<exists>v. r = Inr v \<and> f v = Inl e)"
  by (cases r) (simp_all add: and_then_def)

lemma and_then_Inr [simp]: "and_then (Inr v) f = f v"
  by (simp add: and_then_def)

lemma and_then_Inl_simp [simp]: "and_then (Inl e) f = Inl e"
  by (simp add: and_then_def)

lemma get_prop_error: "get_prop v k = Inl e \<Longrightarrow> e = TypeError"
  by (cases v) auto

lemma to_string_error:
  "to_string v = Inl e \<Longrightarrow> e = TypeError"
  "join_elems vs = Inl e \<Longrightarrow> e = TypeError"
  by (induction v and vs rule: to_string_join_elems.induct)
     (auto split: if_splits sum.splits)

lemma escapeHtml_error: "escapeHtml v = Inl e \<Longrightarrow> e = TypeError"
  by (cases v) auto

lemma date_text_error: "date_text E v = Inl e \<Longrightarrow> e = TypeError"
  by (cases v) (auto simp: date_text_def and_then_Inl split: if_splits dest: to_string_error)

lemma render_post_error: "render_post E a p = Inl e \<Longrightarrow> e = TypeError"
  by (auto simp: render_post_def and_then_Inl Let_def
      dest: to_string_error get_prop_error escapeHtml_error date_text_error)

lemma map_results_error:
  "map_results f xs = Inl e \<Longrightarrow> \<exists>x \<in> set xs. f x = Inl e"
  by (induction xs) (auto simp: and_then_Inl)

lemma render_html_error: "render_html E a ps = Inl e \<Longrightarrow> e = TypeError"
  by (auto simp: render_html_def and_then_Inl split: if_splits
      dest!: map_results_error dest: render_post_error)

lemma authHeaders_error: "authHeaders s hs = Inl e \<Longrightarrow> e = TypeError"
  by (auto simp: authHeaders_def and_then_Inl split: if_splits dest: to_string_error)

lemmas step_defs =
  then_run_def saveToken_def setAuthState_def renderPosts_def fetchJSON_def Let_def

lemmas sample_defs =
  sample_env_def blank_page_def json_response_def status_response_def sample_post_def
  signed_in_def blank_def posts_response_def numbered_post_def login_filled_def

lemmas eval_defs =
  step_defs authHeaders_def fetchJSON_request_def fetchJSON_result_def response_ok_def
  render_html_def render_post_def date_text_def indent_def empty_placeholder_def
  replace_all_def API_BASE_def loadToken_def promise_all_def

section \<open>The API client\<close>

text \<open>
  C5. A response whose status is neither 401 nor in the range 200 to 299 makes
  \<open>fetchJSON\<close> throw an \<open>Error\<close> whose message is the body text if that is not
  empty, else the status text if that is not empty, else \<open>Request failed.\<close>
\<close>

theorem request_failed_message:
  assumes "status r \<noteq> 401" and "\<not> response_ok r"
  shows "fst (fetchJSON path opts (Response r) s) =
           Inl (Error (if body_text r \<noteq> [] then body_text r
                       else if statusText r \<noteq> [] then statusText r
                       else ''Request failed.''))"
  using assms by (simp add: fetchJSON_def fetchJSON_result_def)

theorem request_failed_message_witness:
  "fst (fetchJSON ''/posts'' \<lparr>method_name = ''GET'', headers = [], body = None\<rparr>
         (Response \<lparr>status = 500, statusText = ''Internal Server Error'',
                    body_text = ''boom'', body_json = None\<rparr>) blank_page)
     = Inl (Error ''boom'')
   \<and> fst (fetchJSON ''/posts'' \<lparr>method_name = ''GET'', headers = [], body = None\<rparr>
         (Response \<lparr>status = 500, statusText = ''Internal Server Error'',
                    body_text = [], body_json = None\<rparr>) blank_page)
     = Inl (Error ''Internal Server Error'')
   \<and> fst (fetchJSON ''/posts'' \<lparr>method_name = ''GET'', headers = [], body = None\<rparr>
         (Response \<lparr>status = 404, statusText = [], body_text = [], body_json = None\<rparr>)
         blank_page)
     = Inl (Error ''Request failed.'')"
  using
    request_failed_message
      [of "\<lparr>status = 500, statusText = ''Internal Server Error'',
            body_text = ''boom'', body_json = None\<rparr>"
          "''/posts''" "\<lparr>method_name = ''GET'', headers = [], body = None\<rparr>" blank_page]
    request_failed_message
      [of "\<lparr>status = 500, statusText = ''Internal Server Error'',
            body_text = [], body_json = None\<rparr>"
          "''/posts''" "\<lparr>method_name = ''GET'', headers = [], body = None\<rparr>" blank_page]
    request_failed_message
      [of "\<lparr>status = 404, statusText = [], body_text = [], body_json = None\<rparr>"
          "''/posts''" "\<lparr>method_name = ''GET'', headers = [], body = None\<rparr>" blank_page]
  by (simp add: response_ok_def)

section \<open>The renderer\<close>

text \<open>
  C8. For an empty post sequence the renderer produces exactly the fixed placeholder,
  whatever the \<open>authed\<close> flag is, and \<open>renderPosts\<close> puts it into the page.
\<close>

theorem render_empty_placeholder:
  \<open>render_html E isAuthed [] =
     Inr ''<div class="post empty">No posts yet. Use the editor below to add one!</div>''
   \<and> renderPosts E (s\<lparr>posts := [], authed := isAuthed\<rparr>) =
     (None, s\<lparr>posts := [], authed := isAuthed, postsHtml :=
        ''<div class="post empty">No posts yet. Use the editor below to add one!</div>''\<rparr>)\<close>
  by (simp add: render_html_def renderPosts_def empty_placeholder_def)

section \<open>Publishing\<close>

text \<open>
  C7. If the title or the body is empty after trimming, the publish workflow calls
  \<open>fetch\<close> not at all and leaves the post sequence as it was.
\<close>

theorem publish_empty_field_no_effect:
  assumes "trim E (postTitle s) = [] \<or> trim E (postBody s) = []"
  shows "network (snd (handleCreatePost E fr s)) = network s
       \<and> posts (snd (handleCreatePost E fr s)) = posts s"
  using assms by (auto simp add: handleCreatePost_def Let_def)

theorem publish_empty_field_no_effect_witness:
  "(trim sample_env (postTitle (signed_in\<lparr>postTitle := ''  ''\<rparr>)) = []
     \<or> trim sample_env (postBody (signed_in\<lparr>postTitle := ''  ''\<rparr>)) = [])
   \<and> network (snd (handleCreatePost sample_env (status_response 500)
                      (signed_in\<lparr>postTitle := ''  ''\<rparr>))) = []
   \<and> posts (snd (handleCreatePost sample_env (status_response 500)
                    (signed_in\<lparr>postTitle := ''  ''\<rparr>))) = [sample_post ''p1'']"
  using publish_empty_field_no_effect
          [of sample_env "signed_in\<lparr>postTitle := ''  ''\<rparr>" "status_response 500"]
  by (simp add: sample_defs)

text \<open>
  C6. When the publish workflow has sent its request and the request succeeds, the
  value returned by the server is put in front of the post sequence, whose earlier
  elements follow unchanged and in their order.
\<close>

theorem publish_prepends:
  assumes "network (snd (handleCreatePost E fr s)) \<noteq> network s"
    and "fetchJSON_result fr = Inr newPost"
  shows "posts (snd (handleCreatePost E fr s)) = newPost # posts s"
  using assms
  by (auto simp add: handleCreatePost_def step_defs
      split: if_splits sum.splits prod.splits option.splits
      dest: authHeaders_error render_html_error)

theorem publish_prepends_witness:
  "network (snd (handleCreatePost sample_env (json_response (sample_post ''p2'')) signed_in))
     \<noteq> network signed_in
   \<and> fetchJSON_result (json_response (sample_post ''p2'')) = Inr (sample_post ''p2'')
   \<and> posts (snd (handleCreatePost sample_env (json_response (sample_post ''p2'')) signed_in))
     = [sample_post ''p2'', sample_post ''p1'']"
proof -
  have sent:
    "network (snd (handleCreatePost sample_env (json_response (sample_post ''p2'')) signed_in))
       \<noteq> network signed_in"
    by (simp add: handleCreatePost_def eval_defs sample_defs)
  have ok: "fetchJSON_result (json_response (sample_post ''p2'')) = Inr (sample_post ''p2'')"
    by (simp add: fetchJSON_result_def response_ok_def json_response_def)
  from publish_prepends [OF sent ok] sent ok show ?thesis
    by (simp add: signed_in_def blank_page_def)
qed

section \<open>Posts that render\<close>

lemma has_stringD: "has_string v k \<Longrightarrow> \<exists>t. get_prop v k = Inr (JStr t)"
  by (auto simp: has_string_def split: sum.splits jsval.splits)

lemma render_post_ok: "is_post p \<Longrightarrow> \<exists>h. render_post E a p = Inr h"
  unfolding is_post_def
  by (auto dest!: has_stringD simp: render_post_def date_text_def Let_def)

lemma map_results_ok:
  "\<forall>x \<in> set xs. \<exists>y. f x = Inr y \<Longrightarrow> \<exists>ys. map_results f xs = Inr ys"
  by (induction xs) auto

lemma render_html_ok: "list_all is_post ps \<Longrightarrow> \<exists>h. render_html E a ps = Inr h"
proof -
  assume "list_all is_post ps"
  then have "\<forall>p \<in> set ps. \<exists>h. render_post E a p = Inr h"
    by (auto simp: list_all_iff dest: render_post_ok)
  then obtain parts where "map_results (render_post E a) ps = Inr parts"
    using map_results_ok by blast
  then show ?thesis by (simp add: render_html_def)
qed


lemma and_then_Inr_iff:
  "and_then r f = Inr y \<longleftrightarrow> (\<exists>v. r = Inr v \<and> f v = Inr y)"
  by (cases r) (simp_all add: and_then_def)

lemma escapeHtml_Inr:
  "escapeHtml v = Inr e \<Longrightarrow> \<exists>t. v = JStr t \<and> e = concat (map escape_char t)"
  by (cases v) (simp_all add: five_replacements)

lemma render_post_Inr:
  assumes "render_post E isAuthed p = Inr h"
  shows \<open>h =
         indent 8 @ ''<article class="post" data-id="'' @ text_field p ''id'' @ ''">''
       @ indent 10 @ ''<div class="post-header">''
       @ indent 12 @ ''<h3>'' @ concat (map escape_char (text_field p ''title'')) @ ''</h3>''
       @ indent 12 @ (if isAuthed
                      then ''<button class="delete-post danger" data-id="''
                           @ text_field p ''id'' @ ''">Delete</button>''
                      else [])
       @ indent 10 @ ''</div>''
       @ indent 10 @ ''<time datetime="'' @ text_field p ''createdAt'' @ ''">''
       @ time_text E p @ ''</time>''
       @ indent 10 @ ''<p>''
       @ replace_all (CHR 0x0A) ''<br/>'' (concat (map escape_char (text_field p ''body'')))
       @ ''</p>''
       @ indent 8 @ ''</article>''
       @ indent 6\<close>
  using assms
  by (auto simp: render_post_def and_then_Inr_iff Let_def text_field_def time_text_def
      dest!: escapeHtml_Inr simp del: escapeHtml.simps)

lemma map_results_Inr_map:
  "map_results f xs = Inr ys \<Longrightarrow> (\<And>x y. f x = Inr y \<Longrightarrow> y = g x) \<Longrightarrow> ys = map g xs"
  by (induction xs arbitrary: ys) (auto simp: and_then_Inr_iff)

text \<open>
  C9. Whatever the renderer produces for a non-empty sequence is the markup of its posts,
  one after the other, and in the markup of a post only the title and the body are
  entity-encoded: the id (in the \<open>data-id\<close> attributes, one of them on the delete
  button of an editor) and \<open>createdAt\<close> (in the \<open>datetime\<close> attribute) appear as
  their string conversion, character by character. For Posts of the data model the
  renderer does produce markup. So there is a post, one whose id is \<open>x"y\<close>, whose id
  is not in entity form and whose markup contains \<open>data-id="x"y"\<close>, a double quote
  of the id outside any entity.
\<close>

theorem render_posts_markup:
  \<open>(ps \<noteq> [] \<and> render_html E isAuthed ps = Inr out \<longrightarrow>
      out = concat (map (\<lambda>p.
         indent 8 @ ''<article class="post" data-id="'' @ text_field p ''id'' @ ''">''
       @ indent 10 @ ''<div class="post-header">''
       @ indent 12 @ ''<h3>'' @ concat (map escape_char (text_field p ''title'')) @ ''</h3>''
       @ indent 12 @ (if isAuthed
                      then ''<button class="delete-post danger" data-id="''
                           @ text_field p ''id'' @ ''">Delete</button>''
                      else [])
       @ indent 10 @ ''</div>''
       @ indent 10 @ ''<time datetime="'' @ text_field p ''createdAt'' @ ''">''
       @ time_text E p @ ''</time>''
       @ indent 10 @ ''<p>''
       @ replace_all (CHR 0x0A) ''<br/>'' (concat (map escape_char (text_field p ''body'')))
       @ ''</p>''
       @ indent 8 @ ''</article>''
       @ indent 6) ps))
   \<and> (list_all is_post ps \<longrightarrow> (\<exists>html. render_html E isAuthed ps = Inr html))
   \<and> (\<exists>p pre suf. is_post p \<and> text_field p ''id'' = ''x"y''
          \<and> \<not> entity_form_only (text_field p ''id'')
          \<and> render_html E isAuthed [p] =
              Inr (pre @ ''<article class="post" data-id="x"y">'' @ suf))\<close>
  (is \<open>(_ \<longrightarrow> out = concat (map ?markup ps)) \<and> ?total \<and> ?raw_id\<close>)
proof (intro conjI impI)
  assume a: "ps \<noteq> [] \<and> render_html E isAuthed ps = Inr out"
  then obtain parts where parts: "map_results (render_post E isAuthed) ps = Inr parts"
    and out: "out = concat parts"
    by (auto simp: render_html_def and_then_Inr_iff)
  from parts have "parts = map ?markup ps"
    by (rule map_results_Inr_map) (rule render_post_Inr)
  with out show "out = concat (map ?markup ps)" by simp
next
  assume "list_all is_post ps"
  then show "\<exists>html. render_html E isAuthed ps = Inr html" by (rule render_html_ok)
next
  have post: \<open>is_post (sample_post ''x"y'')\<close>
    and id: \<open>text_field (sample_post ''x"y'') ''id'' = ''x"y''\<close>
    by (simp_all add: sample_post_def is_post_def has_string_def text_field_def)
  have \<open>render_post E isAuthed (sample_post ''x"y'') =
      Inr (indent 8 @ ''<article class="post" data-id="x"y">''
        @ (indent 10 @ ''<div class="post-header">''
       @ indent 12 @ ''<h3>T</h3>''
       @ indent 12 @ (if isAuthed
                      then ''<button class="delete-post danger" data-id="x"y">Delete</button>''
                      else [])
       @ indent 10 @ ''</div>''
       @ indent 10 @ ''<time datetime="2024-01-01T00:00:00Z">''
       @ dateToLocaleString E (JStr ''2024-01-01T00:00:00Z'') @ ''</time>''
       @ indent 10 @ ''<p>B</p>''
       @ indent 8 @ ''</article>''
       @ indent 6))\<close>
    by (simp add: sample_post_def render_post_def date_text_def escapeHtml_JStr
        escape_char_def replace_all_def del: escapeHtml.simps)
  then have out: \<open>render_html E isAuthed [sample_post ''x"y''] =
      Inr (indent 8 @ ''<article class="post" data-id="x"y">''
        @ (indent 10 @ ''<div class="post-header">''
       @ indent 12 @ ''<h3>T</h3>''
       @ indent 12 @ (if isAuthed
                      then ''<button class="delete-post danger" data-id="x"y">Delete</button>''
                      else [])
       @ indent 10 @ ''</div>''
       @ indent 10 @ ''<time datetime="2024-01-01T00:00:00Z">''
       @ dateToLocaleString E (JStr ''2024-01-01T00:00:00Z'') @ ''</time>''
       @ indent 10 @ ''<p>B</p>''
       @ indent 8 @ ''</article>''
       @ indent 6))\<close>
    by (simp add: render_html_def)
  show ?raw_id
    using post id out by (intro exI conjI) (assumption, assumption, simp, assumption)
qed

theorem render_posts_markup_witness:
  \<open>[sample_post ''x"y'', sample_post ''p2''] \<noteq> []
   \<and> list_all is_post [sample_post ''x"y'', sample_post ''p2'']
   \<and> render_html sample_env False [sample_post ''x"y'', sample_post ''p2''] =
     Inr (indent 8 @ ''<article class="post" data-id="x"y">''
        @ indent 10 @ ''<div class="post-header">''
        @ indent 12 @ ''<h3>T</h3>''
        @ indent 12
        @ indent 10 @ ''</div>''
        @ indent 10 @ ''<time datetime="2024-01-01T00:00:00Z">2024-01-01T00:00:00Z</time>''
        @ indent 10 @ ''<p>B</p>''
        @ indent 8 @ ''</article>''
        @ indent 6
        @ indent 8 @ ''<article class="post" data-id="p2">''
        @ indent 10 @ ''<div class="post-header">''
        @ indent 12 @ ''<h3>T</h3>''
        @ indent 12
        @ indent 10 @ ''</div>''
        @ indent 10 @ ''<time datetime="2024-01-01T00:00:00Z">2024-01-01T00:00:00Z</time>''
        @ indent 10 @ ''<p>B</p>''
        @ indent 8 @ ''</article>''
        @ indent 6)\<close>
proof -
  have ne: \<open>[sample_post ''x"y'', sample_post ''p2''] \<noteq> []\<close>
    by simp
  have ps: \<open>list_all is_post [sample_post ''x"y'', sample_post ''p2'']\<close>
    by (simp add: sample_post_def is_post_def has_string_def)
  from render_posts_markup [of "[sample_post ''x\"y'', sample_post ''p2'']" sample_env False] ps
  obtain html where html:
    \<open>render_html sample_env False [sample_post ''x"y'', sample_post ''p2''] = Inr html\<close>
    by blast
  with render_posts_markup
         [of "[sample_post ''x\"y'', sample_post ''p2'']" sample_env False html] ne
  have \<open>html = indent 8 @ ''<article class="post" data-id="x"y">''
        @ indent 10 @ ''<div class="post-header">''
        @ indent 12 @ ''<h3>T</h3>''
        @ indent 12
        @ indent 10 @ ''</div>''
        @ indent 10 @ ''<time datetime="2024-01-01T00:00:00Z">2024-01-01T00:00:00Z</time>''
        @ indent 10 @ ''<p>B</p>''
        @ indent 8 @ ''</article>''
        @ indent 6
        @ indent 8 @ ''<article class="post" data-id="p2">''
        @ indent 10 @ ''<div class="post-header">''
        @ indent 12 @ ''<h3>T</h3>''
        @ indent 12
        @ indent 10 @ ''</div>''
        @ indent 10 @ ''<time datetime="2024-01-01T00:00:00Z">2024-01-01T00:00:00Z</time>''
        @ indent 10 @ ''<p>B</p>''
        @ indent 8 @ ''</article>''
        @ indent 6\<close>
    by (simp add: sample_post_def text_field_def time_text_def date_text_def sample_env_def
        escape_char_def replace_all_def)
  with html ne ps show ?thesis by simp
qed

section \<open>Loading\<close>

text \<open>
  C10, as amended. When the load-posts workflow has sent its request and the request
  succeeds with a result whose \<open>posts\<close> field can be read (the result is not
  \<open>null\<close>), the post sequence becomes that field if it is an array and the empty list
  otherwise; in the latter case the workflow does not fail: it throws nothing, draws the
  placeholder and leaves both messages as they were. When the result is \<open>null\<close>, as
  it is for status 204 and for the body \<open>null\<close>, the sequence stays as it was and the
  message that the posts could not be loaded is shown.
\<close>

theorem loadPosts_replaces:
  assumes "fetchJSON_result fr = Inr result"
    and "network (snd (loadPosts E fr s)) \<noteq> network s"
  shows "(get_prop result ''posts'' = Inr p \<longrightarrow>
            posts (snd (loadPosts E fr s)) = (case p of JArr xs \<Rightarrow> xs | _ \<Rightarrow> [])
          \<and> (case p of
               JArr xs \<Rightarrow> True
             | _ \<Rightarrow> fst (loadPosts E fr s) = None
                   \<and> postsHtml (snd (loadPosts E fr s)) = empty_placeholder
                   \<and> editorMessage (snd (loadPosts E fr s)) = editorMessage s
                   \<and> loginError (snd (loadPosts E fr s)) = loginError s))
       \<and> (result = JNull \<longrightarrow>
            posts (snd (loadPosts E fr s)) = posts s
          \<and> editorMessage (snd (loadPosts E fr s)) = ''Unable to load posts at the moment.'')"
  using assms
  by (auto simp add: loadPosts_def step_defs render_html_def
      split: if_splits sum.splits prod.splits option.splits jsval.splits
      dest: authHeaders_error render_html_error)

theorem loadPosts_replaces_witness:
  "fetchJSON_result (json_response (JObj [(''posts'', JStr ''none'')]))
     = Inr (JObj [(''posts'', JStr ''none'')])
   \<and> network (snd (loadPosts sample_env (json_response (JObj [(''posts'', JStr ''none'')]))
                      signed_in)) \<noteq> network signed_in
   \<and> get_prop (JObj [(''posts'', JStr ''none'')]) ''posts'' = Inr (JStr ''none'')
   \<and> posts (snd (loadPosts sample_env (json_response (JObj [(''posts'', JStr ''none'')]))
                    signed_in)) = []
   \<and> fst (loadPosts sample_env (json_response (JObj [(''posts'', JStr ''none'')])) signed_in)
       = None
   \<and> editorMessage (snd (loadPosts sample_env
         (json_response (JObj [(''posts'', JStr ''none'')])) signed_in)) = []
   \<and> fetchJSON_result (posts_response [sample_post ''p2''])
     = Inr (JObj [(''posts'', JArr [sample_post ''p2''])])
   \<and> network (snd (loadPosts sample_env (posts_response [sample_post ''p2'']) signed_in))
     \<noteq> network signed_in
   \<and> get_prop (JObj [(''posts'', JArr [sample_post ''p2''])]) ''posts''
     = Inr (JArr [sample_post ''p2''])
   \<and> posts (snd (loadPosts sample_env (posts_response [sample_post ''p2'']) signed_in))
     = [sample_post ''p2'']
   \<and> fetchJSON_result (status_response 204) = Inr JNull
   \<and> network (snd (loadPosts sample_env (status_response 204) signed_in))
     \<noteq> network signed_in
   \<and> posts (snd (loadPosts sample_env (status_response 204) signed_in)) = [sample_post ''p1'']
   \<and> editorMessage (snd (loadPosts sample_env (status_response 204) signed_in))
     = ''Unable to load posts at the moment.''"
proof -
  have a1: "fetchJSON_result (json_response (JObj [(''posts'', JStr ''none'')]))
     = Inr (JObj [(''posts'', JStr ''none'')])"
    by (simp add: fetchJSON_result_def json_response_def response_ok_def)
  have a2: "network (snd (loadPosts sample_env (json_response (JObj [(''posts'', JStr ''none'')]))
                      signed_in)) \<noteq> network signed_in"
    by (simp add: loadPosts_def eval_defs sample_defs)
  have b1: "fetchJSON_result (posts_response [sample_post ''p2''])
     = Inr (JObj [(''posts'', JArr [sample_post ''p2''])])"
    by (simp add: fetchJSON_result_def posts_response_def json_response_def response_ok_def)
  have b2: "network (snd (loadPosts sample_env (posts_response [sample_post ''p2'']) signed_in))
     \<noteq> network signed_in"
    by (simp add: loadPosts_def eval_defs sample_defs)
  have c1: "fetchJSON_result (status_response 204) = Inr JNull"
    by (simp add: fetchJSON_result_def status_response_def response_ok_def)
  have c2: "network (snd (loadPosts sample_env (status_response 204) signed_in))
     \<noteq> network signed_in"
    by (simp add: loadPosts_def eval_defs sample_defs)
  from loadPosts_replaces [OF a1 a2, of "JStr ''none''"]
       loadPosts_replaces [OF b1 b2, of "JArr [sample_post ''p2'']"]
       loadPosts_replaces [OF c1 c2]
       a1 a2 b1 b2 c1 c2
  show ?thesis by (simp add: signed_in_def blank_page_def)
qed

text \<open>
  C10 as stated fails on a successful response without a readable \<open>posts\<close> field: on
  status 204, and on the body \<open>null\<close>, reading the field throws, the workflow reports
  that the posts could not be loaded and the sequence stays as it was.
\<close>

theorem loadPosts_null_body_keeps_posts:
  "fetchJSON_result (status_response 204) = Inr JNull
   \<and> fetchJSON_result (json_response JNull) = Inr JNull
   \<and> get_prop JNull ''posts'' = Inl TypeError
   \<and> posts (snd (loadPosts sample_env (status_response 204) signed_in)) = [sample_post ''p1'']
   \<and> posts (snd (loadPosts sample_env (json_response JNull) signed_in)) = [sample_post ''p1'']
   \<and> editorMessage (snd (loadPosts sample_env (json_response JNull) signed_in)) =
        ''Unable to load posts at the moment.''"
  by (simp add: loadPosts_def eval_defs sample_defs)


section \<open>Unauthorized responses\<close>

text \<open>
  A 401 for the request sent by load-posts, publish or delete-one clears the session in
  every state. The message that the session has expired is written after the posts have
  been drawn again, and is shown if the posts held are Posts of the data model.
\<close>

lemma loadPosts_401:
  assumes "status r = 401" and "network (snd (loadPosts E (Response r) s)) \<noteq> network s"
  shows "session_cleared (snd (loadPosts E (Response r) s))
       \<and> (list_all is_post (posts s) \<longrightarrow>
         loginError (snd (loadPosts E (Response r) s)) = ''Session expired. Please sign in again.'')"
  using assms render_html_ok [of "posts s" E False]
  by (auto simp add: loadPosts_def step_defs fetchJSON_result_def session_cleared_def
      split: if_splits sum.splits prod.splits option.splits
      dest: authHeaders_error render_html_error)

lemma handleCreatePost_401:
  assumes "status r = 401" and "network (snd (handleCreatePost E (Response r) s)) \<noteq> network s"
  shows "session_cleared (snd (handleCreatePost E (Response r) s))
       \<and> (list_all is_post (posts s) \<longrightarrow>
         loginError (snd (handleCreatePost E (Response r) s)) = ''Session expired. Please sign in again.'')"
  using assms render_html_ok [of "posts s" E False]
  by (auto simp add: handleCreatePost_def step_defs fetchJSON_result_def session_cleared_def
      split: if_splits sum.splits prod.splits option.splits
      dest: authHeaders_error render_html_error)

lemma handleDeletePost_401:
  assumes "status r = 401" and "network (snd (handleDeletePost E i c (Response r) s)) \<noteq> network s"
  shows "session_cleared (snd (handleDeletePost E i c (Response r) s))
       \<and> (list_all is_post (posts s) \<longrightarrow>
         loginError (snd (handleDeletePost E i c (Response r) s)) = ''Session expired. Please sign in again.'')"
  using assms render_html_ok [of "posts s" E False]
  by (auto simp add: handleDeletePost_def step_defs fetchJSON_result_def session_cleared_def
      split: if_splits sum.splits prod.splits option.splits
      dest: authHeaders_error render_html_error)

text \<open>
  C1 says that after a 401 for the request of the load-posts, publish or delete-one
  workflow the token store is empty, the session is unauthenticated and the
  session-expired message is shown. The program loses the message where a post it holds
  cannot be drawn. After a publish that the server answered with status 204 the sequence
  holds \<open>null\<close>; on a 401 each of the three workflows then sends its request and
  clears the session, but drawing the posts again throws before the message is written,
  and both message elements are empty.
\<close>

theorem unauthorized_message_lost:
  "posts null_cached = [JNull, sample_post ''p1''] \<and> authed null_cached
   \<and> network (snd (loadPosts sample_env (status_response 401) null_cached))
        \<noteq> network null_cached
   \<and> session_cleared (snd (loadPosts sample_env (status_response 401) null_cached))
   \<and> loginError (snd (loadPosts sample_env (status_response 401) null_cached)) = []
   \<and> editorMessage (snd (loadPosts sample_env (status_response 401) null_cached)) = []
   \<and> network (snd (handleCreatePost sample_env (status_response 401) null_cached))
        \<noteq> network null_cached
   \<and> session_cleared (snd (handleCreatePost sample_env (status_response 401) null_cached))
   \<and> loginError (snd (handleCreatePost sample_env (status_response 401) null_cached)) = []
   \<and> editorMessage (snd (handleCreatePost sample_env (status_response 401) null_cached)) = []
   \<and> network (snd (handleDeletePost sample_env ''p1'' True (status_response 401) null_cached))
        \<noteq> network null_cached
   \<and> session_cleared
        (snd (handleDeletePost sample_env ''p1'' True (status_response 401) null_cached))
   \<and> loginError
        (snd (handleDeletePost sample_env ''p1'' True (status_response 401) null_cached)) = []
   \<and> editorMessage
        (snd (handleDeletePost sample_env ''p1'' True (status_response 401) null_cached)) = []"
  by (simp add: null_cached_def editor_start_def startup_def loadPosts_def
      handleCreatePost_def handleDeletePost_def eval_defs sample_defs session_cleared_def)

section \<open>Delete all\<close>

lemma issue_deletes_snd:
  "\<exists>n. snd (issue_deletes E ps s) = s\<lparr>network := n\<rparr>"
proof (induction ps arbitrary: s)
  case Nil
  have "s = s\<lparr>network := network s\<rparr>" by simp
  then show ?case by (metis issue_deletes.simps(1) snd_conv)
next
  case (Cons p ps)
  show ?case
  proof (cases "and_then (get_prop p ''id'') (\<lambda>v.
           and_then (to_string v) (\<lambda>t.
           and_then (case encodeURIComponent E t of None \<Rightarrow> Inl URIError | Some enc \<Rightarrow> Inr enc)
             (\<lambda>enc.
           and_then (authHeaders s []) (\<lambda>hs.
             Inr (fetchJSON_request (''/posts/'' @ enc)
                    \<lparr>method_name = ''DELETE'', headers = hs, body = None\<rparr>)))))")
    case (Inl e)
    have "s = s\<lparr>network := network s\<rparr>" by simp
    with Inl show ?thesis by (metis issue_deletes.simps(2) old.sum.simps(5) snd_conv)
  next
    case (Inr rq)
    from Cons.IH [of "s\<lparr>network := network s @ [rq]\<rparr>"]
    obtain n where "snd (issue_deletes E ps (s\<lparr>network := network s @ [rq]\<rparr>)) = s\<lparr>network := n\<rparr>"
      by auto
    with Inr show ?thesis by auto
  qed
qed

lemma issue_deletes_error:
  "fst (issue_deletes E ps s) = Some e \<Longrightarrow> e \<noteq> UnauthorizedError"
  by (induction ps arbitrary: s)
     (auto simp: and_then_Inl split: sum.splits option.splits
       dest: get_prop_error to_string_error authHeaders_error)

lemma issue_deletes_count:
  "length (network (snd (issue_deletes E ps s))) \<le> length (network s) + length ps
   \<and> (length (network (snd (issue_deletes E ps s))) = length (network s) + length ps
        \<longleftrightarrow> fst (issue_deletes E ps s) = None)"
proof (induction ps arbitrary: s)
  case Nil
  show ?case by simp
next
  case (Cons p ps)
  show ?case
  proof (cases "and_then (get_prop p ''id'') (\<lambda>v.
           and_then (to_string v) (\<lambda>t.
           and_then (case encodeURIComponent E t of None \<Rightarrow> Inl URIError | Some enc \<Rightarrow> Inr enc)
             (\<lambda>enc.
           and_then (authHeaders s []) (\<lambda>hs.
             Inr (fetchJSON_request (''/posts/'' @ enc)
                    \<lparr>method_name = ''DELETE'', headers = hs, body = None\<rparr>)))))")
    case (Inl e)
    then show ?thesis by simp
  next
    case (Inr rq)
    with Cons.IH [of "s\<lparr>network := network s @ [rq]\<rparr>"] show ?thesis by simp
  qed
qed

lemma first_rejection_Some:
  "\<exists>r \<in> set rs. isl r \<Longrightarrow> \<exists>e. first_rejection rs = Some e"
  by (induction rs rule: first_rejection.induct) auto

text \<open>
  If one of the delete calls fails, delete-all keeps the post sequence in every state,
  and shows a failure message if the posts held are Posts of the data model.
\<close>

lemma handleClear_failure:
  assumes "posts s \<noteq> []" and "authed s" and "confirmed"
    and "length outcomes = length (posts s)"
    and "\<exists>x \<in> set outcomes. isl (fetchJSON_result x)"
  shows "posts (snd (handleClear E confirmed outcomes s)) = posts s
       \<and> (list_all is_post (posts s) \<longrightarrow>
            editorMessage (snd (handleClear E confirmed outcomes s)) = ''Unable to clear posts.''
          \<or> loginError (snd (handleClear E confirmed outcomes s)) =
               ''Session expired. Please sign in again.'')"
proof -
  obtain n where issued:
    "snd (issue_deletes E (posts s) (s\<lparr>clearDisabled := True\<rparr>)) = s\<lparr>clearDisabled := True, network := n\<rparr>"
    using issue_deletes_snd [of E "posts s" "s\<lparr>clearDisabled := True\<rparr>"] by auto
  from assms(4,5) obtain e where
    rej: "first_rejection (take (length (posts s)) (map fetchJSON_result outcomes)) = Some e"
    using first_rejection_Some [of "map fetchJSON_result outcomes"] by auto
  show ?thesis
    using assms(1-3) issued rej render_html_ok [of "posts s" E False]
    by (auto simp add: handleClear_def step_defs promise_all_def
        split: if_splits sum.splits prod.splits option.splits settled.splits
        dest: render_html_error)
qed

text \<open>
  C3 says that when one of the delete calls of delete-all fails, the post sequence still
  holds all its posts and a failure message is shown. The program loses the message where
  the failure is a 401 and a post it holds cannot be drawn. With three posts held, the
  second with a number as its title, and the second of the three delete calls answered
  by a 401, all three posts are kept and the session is cleared, but drawing the posts
  again throws before the session-expired message is written, and both message elements
  are empty.
\<close>

theorem delete_all_message_lost:
  "posts three_cached = [sample_post ''p1'', numbered_post ''p2'', sample_post ''p3'']
   \<and> authed three_cached
   \<and> map fetchJSON_result [status_response 204, status_response 401, status_response 204]
       = [Inr JNull, Inl UnauthorizedError, Inr JNull]
   \<and> length (network (snd (handleClear sample_env True
         [status_response 204, status_response 401, status_response 204] three_cached)))
       = length (network three_cached) + 3
   \<and> posts (snd (handleClear sample_env True
         [status_response 204, status_response 401, status_response 204] three_cached))
       = [sample_post ''p1'', numbered_post ''p2'', sample_post ''p3'']
   \<and> editorMessage (snd (handleClear sample_env True
         [status_response 204, status_response 401, status_response 204] three_cached)) = []
   \<and> loginError (snd (handleClear sample_env True
         [status_response 204, status_response 401, status_response 204] three_cached)) = []"
  by (simp add: three_cached_def startup_def loadPosts_def handleClear_def
      eval_defs sample_defs)

section \<open>The session invariant\<close>

lemma loadPosts_session:
  "same_session s (snd (loadPosts E fr s)) \<or> session_cleared (snd (loadPosts E fr s))"
  by (auto simp add: loadPosts_def step_defs session_cleared_def same_session_def
      split: if_splits sum.splits prod.splits option.splits)

lemma handleCreatePost_session:
  "same_session s (snd (handleCreatePost E fr s)) \<or> session_cleared (snd (handleCreatePost E fr s))"
  by (auto simp add: handleCreatePost_def step_defs session_cleared_def same_session_def
      split: if_splits sum.splits prod.splits option.splits)

lemma handleDeletePost_session:
  "same_session s (snd (handleDeletePost E i c fr s))
   \<or> session_cleared (snd (handleDeletePost E i c fr s))"
  by (auto simp add: handleDeletePost_def step_defs session_cleared_def same_session_def
      split: if_splits sum.splits prod.splits option.splits)

lemma handleClear_session:
  "same_session s (snd (handleClear E c frs s)) \<or> session_cleared (snd (handleClear E c frs s))"
proof -
  obtain n where issued:
    "snd (issue_deletes E (posts s) (s\<lparr>clearDisabled := True\<rparr>)) = s\<lparr>clearDisabled := True, network := n\<rparr>"
    using issue_deletes_snd [of E "posts s" "s\<lparr>clearDisabled := True\<rparr>"] by auto
  show ?thesis
    using issued
    by (auto simp add: handleClear_def step_defs session_cleared_def same_session_def
        split: if_splits sum.splits prod.splits option.splits settled.splits)
qed

lemma handleSignOut_session: "session_cleared (snd (handleSignOut E fr1 fr2 s))"
proof -
  define s1 where "s1 = (if truthy (token s) then
           (case authHeaders s [(''Content-Type'', ''application/json'')] of
              Inl e \<Rightarrow> s
            | Inr hs \<Rightarrow>
                snd (fetchJSON ''/logout'' \<lparr>method_name = ''POST'', headers = hs, body = None\<rparr>
                       fr1 s))
         else s)"
  define s2 where "s2 = s1\<lparr>storage := None, token := JNull\<rparr>"
  have r: "handleSignOut E fr1 fr2 s = then_run (setAuthState E False s2) (loadPosts E fr2)"
    by (simp add: handleSignOut_def s1_def s2_def then_run_def saveToken_def Let_def)
  show ?thesis
  proof (cases "setAuthState E False s2")
    case (Pair err s3)
    have c3: "session_cleared s3"
      using Pair by (auto simp: setAuthState_def renderPosts_def s2_def session_cleared_def split: sum.splits)
    show ?thesis
    proof (cases err)
      case None
      with Pair r have "snd (handleSignOut E fr1 fr2 s) = snd (loadPosts E fr2 s3)"
        by (simp add: then_run_def)
      with c3 loadPosts_session [of s3 E fr2] show ?thesis
        by (auto simp: same_session_def session_cleared_def)
    next
      case (Some e)
      with Pair r c3 show ?thesis by (simp add: then_run_def)
    qed
  qed
qed

lemma session_invariant_same:
  "same_session s s' \<Longrightarrow> session_invariant s \<Longrightarrow> session_invariant s'"
  by (simp add: same_session_def session_invariant_def)

lemma session_invariant_cleared: "session_cleared s \<Longrightarrow> session_invariant s"
  by (simp add: session_cleared_def session_invariant_def)

lemma loadPosts_invariant:
  "session_invariant s \<Longrightarrow> session_invariant (snd (loadPosts E fr s))"
  using loadPosts_session [of s E fr]
  by (auto intro: session_invariant_same session_invariant_cleared)

lemma session_invariant_update [simp]:
  "session_invariant (s\<lparr>loginError := m\<rparr>) = session_invariant s"
  "session_invariant (s\<lparr>editorMessage := m\<rparr>) = session_invariant s"
  "session_invariant (s\<lparr>postsHtml := h\<rparr>) = session_invariant s"
  "session_invariant (s\<lparr>network := n\<rparr>) = session_invariant s"
  by (simp_all add: session_invariant_def)

lemma handleLogin_invariant:
  assumes "token_bearing (SubmitLogin fr1 fr2)" and "session_invariant s"
  shows "session_invariant (snd (handleLogin E fr1 fr2 s))"
proof (cases "trim E (loginUsername s) = [] \<or> loginPassword s = []")
  case True
  with assms(2) show ?thesis by (auto simp: handleLogin_def Let_def)
next
  case False
  define s1 where "s1 = s\<lparr>loginError := [],
      network := network s @ [fetchJSON_request ''/login''
                    \<lparr>method_name = ''POST'',
                     headers = [(''Content-Type'', ''application/json'')],
                     body = Some (JObj [(''username'', JStr (trim E (loginUsername s))),
                                        (''password'', JStr (loginPassword s))])\<rparr>]\<rparr>"
  have inv1: "session_invariant s1"
    using assms(2) by (simp add: s1_def)
  show ?thesis
  proof (cases "fetchJSON_result fr1")
    case (Inl e)
    with False assms(2) show ?thesis
      by (auto simp: handleLogin_def Let_def fetchJSON_def)
  next
    case (Inr result)
    show ?thesis
    proof (cases "get_prop result ''token''")
      case (Inl e)
      with False Inr assms(2) show ?thesis
        by (auto simp: handleLogin_def Let_def fetchJSON_def)
    next
      case tok: (Inr t)
      with Inr assms(1) have t: "truthy t" "to_string t \<noteq> Inr []"
        by simp_all
      show ?thesis
      proof (cases "to_string t")
        case (Inl e)
        with False Inr tok t(1) assms(2) show ?thesis
          by (auto simp: handleLogin_def Let_def fetchJSON_def saveToken_def then_run_def)
      next
        case str: (Inr str)
        with t(2) have ne: "str \<noteq> []" by simp
        define s2 where "s2 = s1\<lparr>storage := Some str, token := t\<rparr>"
        obtain err s3 where s3: "setAuthState E True s2 = (err, s3)"
          by (cases "setAuthState E True s2")
        have inv3: "session_invariant s3"
          using s3 t(1) str ne
          by (auto simp: setAuthState_def renderPosts_def s2_def session_invariant_def
              split: sum.splits)
        have inv4: "session_invariant (snd (loadPosts E fr2 s3))"
          using inv3 by (rule loadPosts_invariant)
        show ?thesis
          using False Inr tok t(1) str s3 inv3 inv4
          by (cases err; cases "loadPosts E fr2 s3"; cases "fst (loadPosts E fr2 s3)")
             (auto simp: handleLogin_def Let_def fetchJSON_def saveToken_def then_run_def
               s1_def s2_def)
      qed
    qed
  qed
qed

lemma startup_invariant: "session_invariant (snd (startup E stored fr page))"
proof -
  define s0 where "s0 = page\<lparr>token := JNull, posts := [], authed := False, storage := stored,
                    network := []\<rparr>"
  obtain err1 s1 where s1: "saveToken (loadToken s0) s0 = (err1, s1)"
    by (cases "saveToken (loadToken s0) s0")
  have e1: "err1 = None"
    and t1: "truthy (token s1) \<longrightarrow>
               storage s1 \<noteq> Some [] \<and> map_option Inr (storage s1) = Some (to_string (token s1))"
    using s1 by (auto simp: saveToken_def loadToken_def s0_def split: option.splits if_splits)
  obtain err2 s2 where s2: "setAuthState E (truthy (token s1)) s1 = (err2, s2)"
    by (cases "setAuthState E (truthy (token s1)) s1")
  have inv2: "session_invariant s2"
    using s2 t1
    by (auto simp: setAuthState_def renderPosts_def session_invariant_def
        split: sum.splits if_splits)
  have "snd (startup E stored fr page) = s2 \<or> snd (startup E stored fr page) = snd (loadPosts E fr s2)"
    using s1 e1 s2 by (cases err2) (simp_all add: startup_def then_run_def s0_def Let_def)
  with inv2 loadPosts_invariant [OF inv2, of E fr] show ?thesis by auto
qed

lemma handle_invariant:
  "token_bearing ev \<Longrightarrow> session_invariant s \<Longrightarrow> session_invariant (handle E ev s)"
proof (cases ev)
  case (SubmitLogin fr1 fr2)
  then show "token_bearing ev \<Longrightarrow> session_invariant s \<Longrightarrow> ?thesis"
    using handleLogin_invariant by simp
next
  case (ClickSignOut fr1 fr2)
  then show ?thesis
    using handleSignOut_session [of E fr1 fr2 s] by (simp add: session_invariant_cleared)
next
  case (SubmitPost fr)
  then show "session_invariant s \<Longrightarrow> ?thesis"
    using handleCreatePost_session [of s E fr]
    by (auto intro: session_invariant_same session_invariant_cleared)
next
  case (ClickDelete i c fr)
  then show "session_invariant s \<Longrightarrow> ?thesis"
    using handleDeletePost_session [of s E i c fr]
    by (auto intro: session_invariant_same session_invariant_cleared)
next
  case (ClickClear c frs)
  then show "session_invariant s \<Longrightarrow> ?thesis"
    using handleClear_session [of s E c frs]
    by (auto intro: session_invariant_same session_invariant_cleared)
qed (auto simp: session_invariant_def handleExport_def)

lemma run_invariant:
  "list_all token_bearing evs \<Longrightarrow> session_invariant s \<Longrightarrow> session_invariant (run E evs s)"
  by (induction evs arbitrary: s) (auto intro: handle_invariant)

lemma handleLogin_401:
  "status r = 401 \<Longrightarrow> same_session s (snd (handleLogin E (Response r) fr2 s))"
  by (auto simp: handleLogin_def Let_def fetchJSON_def fetchJSON_result_def same_session_def)

lemma handleClear_401:
  assumes "posts s \<noteq> []"
    and "length (network (snd (handleClear E c outs s))) = length (network s) + length (posts s)"
    and "length outs = length (posts s)"
    and "first_rejection (map fetchJSON_result outs) = Some UnauthorizedError"
  shows "session_cleared (snd (handleClear E c outs s))"
proof -
  obtain n where issued:
    "snd (issue_deletes E (posts s) (s\<lparr>clearDisabled := True\<rparr>)) = s\<lparr>clearDisabled := True, network := n\<rparr>"
    using issue_deletes_snd [of E "posts s" "s\<lparr>clearDisabled := True\<rparr>"] by auto
  have count: "length n = length (network s) + length (posts s)
                 \<longleftrightarrow> fst (issue_deletes E (posts s) (s\<lparr>clearDisabled := True\<rparr>)) = None"
    using issue_deletes_count [of E "posts s" "s\<lparr>clearDisabled := True\<rparr>"] issued by simp
  show ?thesis
    using assms issued count
    by (auto simp add: handleClear_def step_defs promise_all_def session_cleared_def
        split: if_splits sum.splits prod.splits option.splits settled.splits)
qed

lemma sample_login_token_bearing:
  "list_all token_bearing
     [TypeLogin ''u'' ''p'',
      SubmitLogin (json_response (JObj [(''token'', JStr ''tok'')]))
        (posts_response [sample_post ''p1''])]"
  by (simp add: fetchJSON_result_def json_response_def response_ok_def)

lemma sample_login_authed:
  "authed (run sample_env
     [TypeLogin ''u'' ''p'',
      SubmitLogin (json_response (JObj [(''token'', JStr ''tok'')]))
        (posts_response [sample_post ''p1''])]
     (snd (startup sample_env None (posts_response [sample_post ''p1'']) blank_page)))"
  by (simp add: startup_def handleLogin_def loadPosts_def eval_defs sample_defs)

lemma load_401_sent:
  "network (snd (loadPosts sample_env (status_response 401) login_filled))
     \<noteq> network login_filled"
  by (simp add: loadPosts_def eval_defs sample_defs)

lemma publish_401_sent:
  "network (snd (handleCreatePost sample_env (status_response 401) login_filled))
     \<noteq> network login_filled"
  by (simp add: handleCreatePost_def eval_defs sample_defs)

lemma delete_401_sent:
  "network (snd (handleDeletePost sample_env ''p1'' True (status_response 401) login_filled))
     \<noteq> network login_filled"
  by (simp add: handleDeletePost_def eval_defs sample_defs)

lemma login_401_sent:
  "network (snd (handleLogin sample_env (status_response 401) (posts_response []) login_filled))
     \<noteq> network login_filled"
  by (simp add: handleLogin_def eval_defs sample_defs)

lemma clear_401_sent:
  "posts login_filled \<noteq> []
   \<and> length (network (snd (handleClear sample_env True [status_response 401] login_filled))) =
       length (network login_filled) + length (posts login_filled)
   \<and> length [status_response 401] = length (posts login_filled)
   \<and> first_rejection (map fetchJSON_result [status_response 401]) = Some UnauthorizedError"
  by (simp add: handleClear_def eval_defs sample_defs)

lemma handleLogin_401_message:
  "status r = 401 \<Longrightarrow> network (snd (handleLogin E (Response r) fb s)) \<noteq> network s \<Longrightarrow>
   loginError (snd (handleLogin E (Response r) fb s)) = ''Credentials were incorrect.''"
  by (auto simp: handleLogin_def Let_def fetchJSON_def fetchJSON_result_def split: if_splits)

text \<open>
  C4, as amended. In every state reached from start-up by token-bearing events, that is,
  with no login whose request succeeds with a token that is falsy or whose string
  conversion is empty, \<open>authed\<close> holds only while \<open>state.token\<close> is truthy and the
  token store holds its string conversion, a non-empty text. The load-posts, publish
  and delete-one workflows leave the session cleared when the request they sent is
  answered by a 401. Delete-all, with posts to delete, leaves it cleared when it has sent
  a request for every post, there is an outcome for every request, and the first call to
  fail, in the order in which the calls settle, is answered by a 401. Sign-out leaves it cleared whatever
  the answers. A 401 for the login request itself leaves token, store and flag as they
  were and, the request having been sent, shows that the credentials were incorrect.
\<close>

theorem session_invariant_with_tokens:
  "(list_all token_bearing evs \<longrightarrow>
      session_invariant (run E evs (snd (startup E stored fr page))))
   \<and> (status r = 401 \<longrightarrow>
        (network (snd (loadPosts E (Response r) s)) \<noteq> network s \<longrightarrow>
           session_cleared (snd (loadPosts E (Response r) s)))
      \<and> (network (snd (handleCreatePost E (Response r) s)) \<noteq> network s \<longrightarrow>
           session_cleared (snd (handleCreatePost E (Response r) s)))
      \<and> (network (snd (handleDeletePost E i c (Response r) s)) \<noteq> network s \<longrightarrow>
           session_cleared (snd (handleDeletePost E i c (Response r) s)))
      \<and> same_session s (snd (handleLogin E (Response r) fb s))
      \<and> (network (snd (handleLogin E (Response r) fb s)) \<noteq> network s \<longrightarrow>
           loginError (snd (handleLogin E (Response r) fb s)) = ''Credentials were incorrect.''))
   \<and> (posts s \<noteq> [] \<and>
      length (network (snd (handleClear E c outs s))) = length (network s) + length (posts s) \<and>
      length outs = length (posts s) \<and>
      first_rejection (map fetchJSON_result outs) = Some UnauthorizedError \<longrightarrow>
        session_cleared (snd (handleClear E c outs s)))
   \<and> session_cleared (snd (handleSignOut E fa fb s))"
  using run_invariant [OF _ startup_invariant, of evs E E stored fr page]
    loadPosts_401 [of r E s] handleCreatePost_401 [of r E s] handleDeletePost_401 [of r E i c s]
    handleLogin_401 [of r s E fb] handleClear_401 [of s E c outs]
    handleSignOut_session [of E fa fb s] handleLogin_401_message [of r E fb s]
  by blast

theorem session_invariant_with_tokens_witness:
  "list_all token_bearing
     [TypeLogin ''u'' ''p'',
      SubmitLogin (json_response (JObj [(''token'', JStr ''tok'')]))
        (posts_response [sample_post ''p1''])]
   \<and> authed (run sample_env
        [TypeLogin ''u'' ''p'',
         SubmitLogin (json_response (JObj [(''token'', JStr ''tok'')]))
           (posts_response [sample_post ''p1''])]
        (snd (startup sample_env None (posts_response [sample_post ''p1'']) blank_page)))
   \<and> session_invariant (run sample_env
        [TypeLogin ''u'' ''p'',
         SubmitLogin (json_response (JObj [(''token'', JStr ''tok'')]))
           (posts_response [sample_post ''p1''])]
        (snd (startup sample_env None (posts_response [sample_post ''p1'']) blank_page)))
   \<and> network (snd (loadPosts sample_env (status_response 401) login_filled))
        \<noteq> network login_filled
   \<and> session_cleared (snd (loadPosts sample_env (status_response 401) login_filled))
   \<and> network (snd (handleCreatePost sample_env (status_response 401) login_filled))
        \<noteq> network login_filled
   \<and> session_cleared (snd (handleCreatePost sample_env (status_response 401) login_filled))
   \<and> network (snd (handleDeletePost sample_env ''p1'' True (status_response 401) login_filled))
        \<noteq> network login_filled
   \<and> session_cleared
        (snd (handleDeletePost sample_env ''p1'' True (status_response 401) login_filled))
   \<and> network (snd (handleLogin sample_env (status_response 401) (posts_response [])
                      login_filled)) \<noteq> network login_filled
   \<and> same_session login_filled
        (snd (handleLogin sample_env (status_response 401) (posts_response []) login_filled))
   \<and> loginError
        (snd (handleLogin sample_env (status_response 401) (posts_response []) login_filled))
       = ''Credentials were incorrect.''
   \<and> posts login_filled \<noteq> []
   \<and> length (network (snd (handleClear sample_env True [status_response 401] login_filled))) =
       length (network login_filled) + length (posts login_filled)
   \<and> length [status_response 401] = length (posts login_filled)
   \<and> first_rejection (map fetchJSON_result [status_response 401]) = Some UnauthorizedError
   \<and> session_cleared (snd (handleClear sample_env True [status_response 401] login_filled))
   \<and> session_cleared
        (snd (handleSignOut sample_env (status_response 204) (posts_response []) login_filled))"
  using session_invariant_with_tokens
          [where evs = "[TypeLogin ''u'' ''p'',
                SubmitLogin (json_response (JObj [(''token'', JStr ''tok'')]))
                  (posts_response [sample_post ''p1''])]"
             and E = sample_env and stored = None
             and fr = "posts_response [sample_post ''p1'']" and page = blank_page
             and r = "\<lparr>status = 401, statusText = [], body_text = [], body_json = None\<rparr>"
             and s = login_filled and i = "''p1''" and c = True
             and outs = "[status_response 401]"
             and fa = "status_response 204" and fb = "posts_response []"]
        sample_login_token_bearing sample_login_authed
        load_401_sent publish_401_sent delete_401_sent login_401_sent clear_401_sent
  by (simp add: status_response_def)

text \<open>
  C4 as stated fails. After a login answered without a token field the page is
  \<open>authed\<close> while \<open>state.token\<close> is \<open>undefined\<close> and the store is empty; after
  one answered with the empty array as token it is \<open>authed\<close> while the store holds the
  empty text. A login answered by a 401 while a session exists leaves that session in
  place. And delete-all with two posts, whose first call fails with status 500 and whose
  second is answered by a 401, leaves the session in place as well.
\<close>

theorem login_breaks_session_invariant:
  "authed tokenless_login \<and> token tokenless_login = JUndefined
   \<and> storage tokenless_login = None \<and> \<not> session_invariant tokenless_login
   \<and> authed array_token_login \<and> token array_token_login = JArr []
   \<and> storage array_token_login = Some [] \<and> \<not> session_invariant array_token_login
   \<and> authed rejected_login \<and> token rejected_login = JStr ''tok''
   \<and> storage rejected_login = Some ''tok'' \<and> \<not> session_cleared rejected_login
   \<and> map fetchJSON_result [status_response 500, status_response 401]
       = [Inl (Error ''Request failed.''), Inl UnauthorizedError]
   \<and> length (network (snd (handleClear sample_env True
         [status_response 500, status_response 401] editor_two)))
       = length (network editor_two) + 2
   \<and> authed (snd (handleClear sample_env True
         [status_response 500, status_response 401] editor_two))
   \<and> token (snd (handleClear sample_env True
         [status_response 500, status_response 401] editor_two)) = JStr ''tok''
   \<and> \<not> session_cleared (snd (handleClear sample_env True
         [status_response 500, status_response 401] editor_two))"
  by (simp add: tokenless_login_def array_token_login_def rejected_login_def visitor_start_def
      editor_start_def editor_two_def startup_def handleLogin_def loadPosts_def handleClear_def
      eval_defs sample_defs session_invariant_def session_cleared_def)

end
